theory Spec2Isabelle
  imports Main "HOL-Library.Sublist" "HOL-Library.Char_ord" "HOL-Library.List_Lexorder"
    "HOL-Library.Product_Lexorder" "HOL-Library.AList" "HOL-Library.Multiset"
begin

section \<open>Python values shared by the services\<close>

text \<open>
  A Python exception is modelled by its class, as far as the handlers of the program
  tell classes apart, together with the text that \<^verbatim>\<open>str(e)\<close> gives.
  \<^verbatim>\<open>GitCommandError\<close> is the class the version-control library raises for a failed
  command; the four classes after it are the subclasses of \<^verbatim>\<open>OSError\<close> that the
  file system raises; \<^verbatim>\<open>ValueError\<close> is raised by the path library and by the
  program itself; \<^verbatim>\<open>OtherException\<close> stands for every other subclass of
  \<^verbatim>\<open>Exception\<close>.
\<close>

datatype py_exception =
    GitCommandError string
  | FileNotFoundError string
  | NotADirectoryError string
  | IsADirectoryError string
  | FileExistsError string
  | ValueError string
  | OtherException string

fun str_exn :: "py_exception \<Rightarrow> string" where
  "str_exn (GitCommandError m) = m"
| "str_exn (FileNotFoundError m) = m"
| "str_exn (NotADirectoryError m) = m"
| "str_exn (IsADirectoryError m) = m"
| "str_exn (FileExistsError m) = m"
| "str_exn (ValueError m) = m"
| "str_exn (OtherException m) = m"

text \<open>
  Strings are lists of 8-bit characters; \<^verbatim>\<open>str.lower()\<close> is modelled on the ASCII
  letters.
\<close>

definition lower_char :: "char \<Rightarrow> char" where
  "lower_char c =
     (if (65::nat) \<le> of_char c \<and> of_char c \<le> (90::nat)
      then char_of (of_char c + (32::nat)) else c)"

definition py_lower :: "string \<Rightarrow> string" where
  "py_lower s = map lower_char s"

text \<open>\<^verbatim>\<open>needle in haystack\<close> on strings: the needle occurs as a contiguous run.\<close>

fun py_in :: "string \<Rightarrow> string \<Rightarrow> bool" where
  "py_in needle [] = (needle = [])"
| "py_in needle (c # cs) = (prefix needle (c # cs) \<or> py_in needle cs)"

text \<open>\<^verbatim>\<open>str.strip()\<close> without argument removes white space at both ends.\<close>

definition is_space :: "char \<Rightarrow> bool" where
  "is_space c =
     (let n = (of_char c :: nat) in (9 \<le> n \<and> n \<le> 13) \<or> (28 \<le> n \<and> n \<le> 32))"

definition py_strip :: "string \<Rightarrow> string" where
  "py_strip s = rev (dropWhile is_space (rev (dropWhile is_space s)))"

text \<open>An optional string inside an f-string: \<^verbatim>\<open>None\<close> prints as the word None.\<close>

fun fmt_opt :: "string option \<Rightarrow> string" where
  "fmt_opt None = ''None''"
| "fmt_opt (Some s) = s"

section \<open>utils/path\_utils.py\<close>

text \<open>\<^verbatim>\<open>re.sub(r'[<>:"|?*]', '', path)\<close>: the listed characters are deleted.\<close>

definition dangerous :: "char \<Rightarrow> bool" where
  "dangerous c = (c \<in> set ''<>:|?*'' \<or> c = CHR 0x22)"

text \<open>\<^verbatim>\<open>path.strip(' .')\<close>: blanks and dots are removed at both ends.\<close>

definition strip_chars :: "char list \<Rightarrow> string \<Rightarrow> string" where
  "strip_chars cs s =
     rev (dropWhile (\<lambda>c. c \<in> set cs) (rev (dropWhile (\<lambda>c. c \<in> set cs) s)))"

text \<open>\<^verbatim>\<open>path.replace('\\', '/')\<close>.\<close>

definition replace_backslash :: "string \<Rightarrow> string" where
  "replace_backslash s = map (\<lambda>c. if c = CHR 0x5C then CHR ''/'' else c) s"

text \<open>
  \<^verbatim>\<open>re.sub(r'\.\./', '', path)\<close>: one pass from the left that deletes every match of
  dot dot slash and resumes after it; what the deletions bring together is not
  looked at again.
\<close>

fun remove_dotdot_slash :: "string \<Rightarrow> string" where
  "remove_dotdot_slash (a # b # c # s) =
     (if a = CHR ''.'' \<and> b = CHR ''.'' \<and> c = CHR ''/''
      then remove_dotdot_slash s else a # remove_dotdot_slash (b # c # s))"
| "remove_dotdot_slash s = s"

text \<open>\<^verbatim>\<open>re.sub(r'^\.\.', '', path)\<close>: two dots at the very start are deleted.\<close>

fun remove_leading_dotdot :: "string \<Rightarrow> string" where
  "remove_leading_dotdot (a # b # s) =
     (if a = CHR ''.'' \<and> b = CHR ''.'' then s else a # b # s)"
| "remove_leading_dotdot s = s"

definition sanitize_path :: "string \<Rightarrow> string" where
  "sanitize_path path =
     remove_leading_dotdot (remove_dotdot_slash (replace_backslash
       (strip_chars '' .'' (filter (\<lambda>c. \<not> dangerous c) path))))"

subsection \<open>Paths of the path library\<close>

text \<open>
  A path of the path library (POSIX flavour) is its root, none, one slash or exactly
  two slashes, and its parts; empty parts and single dots are dropped when a string is
  parsed, double dots are kept.
\<close>

datatype anchor = Relative | Root | DoubleRoot

type_synonym pure_path = "anchor \<times> string list"

text \<open>\<^verbatim>\<open>str.split('/')\<close>.\<close>

fun split_slash :: "string \<Rightarrow> string list" where
  "split_slash [] = [[]]"
| "split_slash (c # s) =
     (if c = CHR ''/'' then [] # split_slash s
      else (case split_slash s of p # ps \<Rightarrow> (c # p) # ps | [] \<Rightarrow> [[c]]))"

definition parse_anchor :: "string \<Rightarrow> anchor" where
  "parse_anchor s =
     (if prefix ''//'' s \<and> \<not> prefix ''///'' s then DoubleRoot
      else if prefix ''/'' s then Root else Relative)"

definition parse_path :: "string \<Rightarrow> pure_path" where
  "parse_path s = (parse_anchor s, filter (\<lambda>p. p \<noteq> [] \<and> p \<noteq> ''.'') (split_slash s))"

text \<open>
  \<^verbatim>\<open>base_path / sanitized\<close>, for a base directory that is absolute, given by its
  parts under the root: a string with a root replaces the base.
\<close>

definition joinpath :: "string list \<Rightarrow> string \<Rightarrow> pure_path" where
  "joinpath base s =
     (case parse_path s of
        (Relative, ps) \<Rightarrow> (Root, base @ ps)
      | (a, ps) \<Rightarrow> (a, ps))"

fun join_with :: "string \<Rightarrow> string list \<Rightarrow> string" where
  "join_with sep [] = []"
| "join_with sep [p] = p"
| "join_with sep (p # ps) = p @ sep @ join_with sep ps"

text \<open>\<^verbatim>\<open>str(path)\<close>.\<close>

fun str_path :: "pure_path \<Rightarrow> string" where
  "str_path (Relative, ps) = (if ps = [] then ''.'' else join_with ''/'' ps)"
| "str_path (Root, ps) = ''/'' @ join_with ''/'' ps"
| "str_path (DoubleRoot, ps) = ''//'' @ join_with ''/'' ps"

text \<open>
  \<^verbatim>\<open>Path.resolve()\<close> asks the operating system and is a parameter of
  \<^verbatim>\<open>get_safe_path\<close>: it maps a path to the parts of an absolute path without double
  dots and without symbolic links. \<^verbatim>\<open>relative_to\<close> on two such paths succeeds when
  the parts of the second open the parts of the first, part by part.
\<close>

definition get_safe_path ::
  "(pure_path \<Rightarrow> string list) \<Rightarrow> string list \<Rightarrow> string \<Rightarrow> py_exception + pure_path" where
  "get_safe_path resolve base_path relative_path =
     (let sanitized = sanitize_path relative_path;
          full_path = joinpath base_path sanitized
      in if prefix (resolve (Root, base_path)) (resolve full_path)
         then Inr full_path
         else Inl (ValueError (''Path '' @ [CHR 0x27] @ relative_path @ [CHR 0x27]
                     @ '' is not within the allowed directory'')))"

text \<open>
  On a file system without symbolic links \<^verbatim>\<open>resolve()\<close> works on the parts alone:
  a double dot removes the part before it and is dropped at the root, and two leading
  slashes count as one. Every path the file store resolves is absolute.
\<close>

fun normpath :: "string list \<Rightarrow> string list \<Rightarrow> string list" where
  "normpath acc [] = acc"
| "normpath acc (p # ps) =
     (if p = ''..'' then normpath (butlast acc) ps else normpath (acc @ [p]) ps)"

definition resolve_lexical :: "pure_path \<Rightarrow> string list" where
  "resolve_lexical p = normpath [] (snd p)"


text \<open>\<^verbatim>\<open>Path(name).suffix\<close>: from the last dot on, unless that dot opens or ends the name.\<close>

definition suffix_of :: "string \<Rightarrow> string" where
  "suffix_of name =
     (let k = length (takeWhile (\<lambda>c. c \<noteq> CHR ''.'') (rev name))
      in if CHR ''.'' \<in> set name \<and> 0 < k \<and> k + 1 < length name
         then drop (length name - k - 1) name else [])"

definition language_map :: "(string \<times> string) list" where
  "language_map =
     [(''.py'', ''python''), (''.js'', ''javascript''), (''.jsx'', ''javascript''),
      (''.ts'', ''typescript''), (''.tsx'', ''typescript''), (''.html'', ''html''),
      (''.css'', ''css''), (''.scss'', ''scss''), (''.sass'', ''sass''),
      (''.json'', ''json''), (''.xml'', ''xml''), (''.yaml'', ''yaml''),
      (''.yml'', ''yaml''), (''.md'', ''markdown''), (''.txt'', ''text''),
      (''.sh'', ''bash''), (''.bat'', ''batch''), (''.ps1'', ''powershell''),
      (''.php'', ''php''), (''.rb'', ''ruby''), (''.go'', ''go''), (''.rs'', ''rust''),
      (''.java'', ''java''), (''.c'', ''c''), (''.cpp'', ''cpp''), (''.cs'', ''csharp''),
      (''.sql'', ''sql''), (''.r'', ''r''), (''.swift'', ''swift''), (''.kt'', ''kotlin''),
      (''.scala'', ''scala''), (''.dart'', ''dart''), (''.vue'', ''vue''),
      (''.svelte'', ''svelte'')]"

definition get_file_language :: "string \<Rightarrow> string" where
  "get_file_language file_path =
     (case map_of language_map (py_lower (suffix_of file_path)) of
        None \<Rightarrow> ''text'' | Some l \<Rightarrow> l)"

section \<open>The file system\<close>

text \<open>
  The file system is an external collaborator. It is modelled without symbolic links:
  a list of entries, each the parts of an absolute path without double dots and the
  node found there, a regular file with its bytes or a directory; a node carries the
  time of its last write. The order of the list is the order in which a directory is
  enumerated. The root is the entry with no parts.
\<close>

datatype node = File "char list" nat | Dir nat

type_synonym filesystem = "(string list \<times> node) list"

datatype os_error = ENOENT | ENOTDIR | EEXIST | EISDIR

fun os_exception :: "os_error \<Rightarrow> pure_path \<Rightarrow> py_exception" where
  "os_exception ENOENT p =
     FileNotFoundError (''[Errno 2] No such file or directory: '' @ [CHR 0x27] @ str_path p @ [CHR 0x27])"
| "os_exception ENOTDIR p =
     NotADirectoryError (''[Errno 20] Not a directory: '' @ [CHR 0x27] @ str_path p @ [CHR 0x27])"
| "os_exception EEXIST p =
     FileExistsError (''[Errno 17] File exists: '' @ [CHR 0x27] @ str_path p @ [CHR 0x27])"
| "os_exception EISDIR p =
     IsADirectoryError (''[Errno 21] Is a directory: '' @ [CHR 0x27] @ str_path p @ [CHR 0x27])"

text \<open>
  How the operating system follows the parts of a path from the directory \<open>cur\<close>: each
  part is looked up in a directory that must exist, and a double dot leads to the parent
  (to the root itself at the root). The last part need not exist.
\<close>

fun walk :: "filesystem \<Rightarrow> string list \<Rightarrow> string list \<Rightarrow> os_error + string list" where
  "walk fs cur [] = Inr cur"
| "walk fs cur (p # ps) =
     (case map_of fs cur of
        None \<Rightarrow> Inl ENOENT
      | Some (File bytes t) \<Rightarrow> Inl ENOTDIR
      | Some (Dir t) \<Rightarrow>
          if p = ''..'' then walk fs (butlast cur) ps else walk fs (cur @ [p]) ps)"

text \<open>\<^verbatim>\<open>os.stat\<close>.\<close>

definition stat :: "filesystem \<Rightarrow> pure_path \<Rightarrow> os_error + node" where
  "stat fs p =
     (case walk fs [] (snd p) of
        Inl e \<Rightarrow> Inl e
      | Inr c \<Rightarrow> (case map_of fs c of None \<Rightarrow> Inl ENOENT | Some n \<Rightarrow> Inr n))"

text \<open>
  \<^verbatim>\<open>Path.exists\<close>, \<^verbatim>\<open>Path.is_file\<close> and \<^verbatim>\<open>Path.is_dir\<close> answer false where
  \<^verbatim>\<open>stat\<close> fails.
\<close>

definition path_exists :: "filesystem \<Rightarrow> pure_path \<Rightarrow> bool" where
  "path_exists fs p = (case stat fs p of Inl e \<Rightarrow> False | Inr n \<Rightarrow> True)"

definition is_file :: "filesystem \<Rightarrow> pure_path \<Rightarrow> bool" where
  "is_file fs p = (case stat fs p of Inr (File bytes t) \<Rightarrow> True | _ \<Rightarrow> False)"







text \<open>\<^verbatim>\<open>path.name\<close>.\<close>

definition path_name :: "pure_path \<Rightarrow> string" where
  "path_name p = (if snd p = [] then [] else last (snd p))"





subsection \<open>Reading text\<close>

text \<open>
  \<^verbatim>\<open>open(path, 'r', encoding='utf-8', errors='replace')\<close> decodes the bytes as UTF-8,
  puts U+FFFD for every ill-formed run of bytes, and then translates line ends: the
  file is opened in text mode with the default \<^verbatim>\<open>newline=None\<close>, so a carriage return
  followed by a line feed, and a carriage return alone, are read as one line feed. The
  text read is a list of code points.
\<close>

definition is_cont :: "nat \<Rightarrow> bool" where
  "is_cont b = (0x80 \<le> b \<and> b \<le> 0xBF)"

text \<open>The second byte of a sequence of three or four bytes has a narrower range after
  the lead bytes E0, ED, F0 and F4.\<close>

definition second_ok :: "nat \<Rightarrow> nat \<Rightarrow> bool" where
  "second_ok b0 b1 =
     (is_cont b1 \<and> \<not> (b0 = 0xE0 \<and> b1 < 0xA0) \<and> \<not> (b0 = 0xED \<and> 0xA0 \<le> b1)
      \<and> \<not> (b0 = 0xF0 \<and> b1 < 0x90) \<and> \<not> (b0 = 0xF4 \<and> 0x90 \<le> b1))"

text \<open>
  The code point that the bytes \<open>b0 # bs\<close> start with and the number of bytes it
  takes. An ill-formed or cut-off sequence gives U+FFFD and takes the bytes up to the
  first one that cannot continue it.
\<close>

definition utf8_next :: "nat \<Rightarrow> nat list \<Rightarrow> nat \<times> nat" where
  "utf8_next b0 bs =
     (if b0 < 0x80 then (b0, 1)
      else if b0 < 0xC2 \<or> 0xF5 \<le> b0 then (0xFFFD, 1)
      else
        (case bs of
           [] \<Rightarrow> (0xFFFD, 1)
         | b1 # bs1 \<Rightarrow>
             if b0 < 0xE0
             then (if is_cont b1 then ((b0 - 0xC0) * 64 + (b1 - 0x80), 2) else (0xFFFD, 1))
             else if \<not> second_ok b0 b1 then (0xFFFD, 1)
             else
               (case bs1 of
                  [] \<Rightarrow> (0xFFFD, 2)
                | b2 # bs2 \<Rightarrow>
                    if \<not> is_cont b2 then (0xFFFD, 2)
                    else if b0 < 0xF0
                    then ((b0 - 0xE0) * 4096 + (b1 - 0x80) * 64 + (b2 - 0x80), 3)
                    else
                      (case bs2 of
                         [] \<Rightarrow> (0xFFFD, 3)
                       | b3 # bs3 \<Rightarrow>
                           if \<not> is_cont b3 then (0xFFFD, 3)
                           else ((b0 - 0xF0) * 262144 + (b1 - 0x80) * 4096
                                   + (b2 - 0x80) * 64 + (b3 - 0x80), 4)))))"

function utf8_decode :: "nat list \<Rightarrow> nat list" where
  "utf8_decode [] = []"
| "utf8_decode (b0 # bs) =
     fst (utf8_next b0 bs) # utf8_decode (drop (snd (utf8_next b0 bs) - 1) bs)"
  by pat_completeness auto
termination
  by (relation "measure length") auto

fun translate_newlines :: "nat list \<Rightarrow> nat list" where
  "translate_newlines [] = []"
| "translate_newlines [c] = (if c = 13 then [10] else [c])"
| "translate_newlines (c # d # cs) =
     (if c = 13 \<and> d = 10 then 10 # translate_newlines cs
      else if c = 13 then 10 # translate_newlines (d # cs)
      else c # translate_newlines (d # cs))"

definition read_text :: "char list \<Rightarrow> nat list" where
  "read_text bytes = translate_newlines (utf8_decode (map of_char bytes))"

text \<open>\<^verbatim>\<open>is_binary_file\<close>: a failure to open or read the file counts as not binary.\<close>

definition is_binary_file :: "filesystem \<Rightarrow> pure_path \<Rightarrow> bool" where
  "is_binary_file fs file_path =
     (case stat fs file_path of
        Inr (File bytes t) \<Rightarrow> CHR 0x00 \<in> set (take 512 bytes)
      | _ \<Rightarrow> False)"

section \<open>models/file\_metadata.py: the file models\<close>

record FileItem =
  name :: string
  path :: string
  is_directory :: bool
  file_size :: "nat option"
  modified :: "nat option"
  extension :: "string option"
  language :: "string option"

record FileContent =
  content :: "nat list"
  content_language :: string
  content_path :: string
  content_size :: nat
  content_modified :: nat

section \<open>services/file\_manager.py\<close>






definition get_file_content :: "filesystem \<Rightarrow> string list \<Rightarrow> string \<Rightarrow> py_exception + FileContent" where
  "get_file_content fs base_path relative_path =
     (case
        (case get_safe_path resolve_lexical base_path relative_path of
           Inl e \<Rightarrow> Inl e
         | Inr file_path \<Rightarrow>
             if \<not> path_exists fs file_path \<or> \<not> is_file fs file_path
             then Inl (FileNotFoundError (''File not found: '' @ relative_path))
             else if is_binary_file fs file_path
             then Inl (ValueError ''Cannot display binary file content'')
             else
               (case stat fs file_path of
                  Inl e \<Rightarrow> Inl (os_exception e file_path)
                | Inr (Dir t) \<Rightarrow> Inl (os_exception EISDIR file_path)
                | Inr (File bytes t) \<Rightarrow>
                    if length bytes > 1024 * 1024
                    then Inl (ValueError ''File too large to display (max 1MB)'')
                    else Inr \<lparr>content = read_text bytes,
                              content_language = get_file_language (path_name file_path),
                              content_path = relative_path,
                              content_size = length bytes,
                              content_modified = t\<rparr>))
      of
        Inl e \<Rightarrow> Inl (ValueError (''Error reading file: '' @ str_exn e))
      | Inr c \<Rightarrow> Inr c)"


section \<open>main.py: the endpoint that reads a file\<close>



section \<open>models/file\_metadata.py: the results of the repository\<close>

record GitStatus =
  is_clean :: bool
  has_changes :: bool
  ahead :: nat
  behind :: nat
  current_branch :: string
  last_commit :: "string option"
  last_commit_message :: "string option"

record GitOperation =
  success :: bool
  message :: string
  details :: "string option"

section \<open>services/git\_service.py\<close>

text \<open>
  The version-control library is an external collaborator. A value of type \<open>repo\<close>
  gives, for one state of the working tree, what each library call the service makes
  answers: a value, or the exception it raises. The service holds \<open>Some r\<close> when a
  repository was loaded and \<open>None\<close> otherwise (\<^verbatim>\<open>self.repo\<close>).
\<close>

record push_info =
  flags_error :: bool
  summary :: string

record repo =
  is_dirty :: "py_exception + bool"
  active_branch_name :: "py_exception + string"
  tracking_branch :: "py_exception + string option"
  iter_commits_ahead :: "py_exception + string list"
  iter_commits_behind :: "py_exception + string list"
  head_is_valid :: "py_exception + bool"
  head_commit_hexsha :: "py_exception + string"
  head_commit_message :: "py_exception + string"
  git_add :: "py_exception option"
  index_commit :: "py_exception + string"
  remote_lookup :: "py_exception option"
  origin_push :: "py_exception + push_info list"
  origin_pull :: "py_exception + string list"

text \<open>The calls that change the repository or talk to the remote, as they are logged.\<close>

datatype git_call =
    CallAdd string
  | CallCommit string
  | CallPush string
  | CallPull string

definition is_repo_available :: "repo option \<Rightarrow> bool" where
  "is_repo_available r = (r \<noteq> None)"

definition get_ahead_behind_count :: "repo \<Rightarrow> nat \<times> nat" where
  "get_ahead_behind_count r =
     (case active_branch_name r of
        Inl e \<Rightarrow> (0, 0)
      | Inr b \<Rightarrow>
     (case tracking_branch r of
        Inl e \<Rightarrow> (0, 0)
      | Inr None \<Rightarrow> (0, 0)
      | Inr (Some t) \<Rightarrow>
     (case iter_commits_ahead r of
        Inl e \<Rightarrow> (0, 0)
      | Inr a \<Rightarrow>
     (case iter_commits_behind r of
        Inl e \<Rightarrow> (0, 0)
      | Inr b \<Rightarrow> (length a, length b)))))"

text \<open>The body of the \<^verbatim>\<open>try\<close> block of \<^verbatim>\<open>get_status\<close>: \<open>Inl e\<close> when a call raises.\<close>

definition get_status_try :: "repo \<Rightarrow> py_exception + GitStatus" where
  "get_status_try r =
     (case is_dirty r of Inl e \<Rightarrow> Inl e | Inr d1 \<Rightarrow>
     (case is_dirty r of Inl e \<Rightarrow> Inl e | Inr d2 \<Rightarrow>
     (case active_branch_name r of Inl e \<Rightarrow> Inl e | Inr branch \<Rightarrow>
     (case get_ahead_behind_count r of (a, b) \<Rightarrow>
     (case head_is_valid r of Inl e \<Rightarrow> Inl e
      | Inr False \<Rightarrow>
          Inr \<lparr>is_clean = \<not> d1, has_changes = d2, ahead = a, behind = b,
               current_branch = branch, last_commit = None, last_commit_message = None\<rparr>
      | Inr True \<Rightarrow>
     (case head_commit_hexsha r of Inl e \<Rightarrow> Inl e | Inr h \<Rightarrow>
     (case head_commit_message r of Inl e \<Rightarrow> Inl e | Inr m \<Rightarrow>
          Inr \<lparr>is_clean = \<not> d1, has_changes = d2, ahead = a, behind = b,
               current_branch = branch, last_commit = Some (take 8 h),
               last_commit_message = Some (py_strip m)\<rparr>)))))))"

definition get_status :: "repo option \<Rightarrow> py_exception + GitStatus" where
  "get_status ro =
     (case ro of
        None \<Rightarrow>
          Inr \<lparr>is_clean = False, has_changes = False, ahead = 0, behind = 0,
               current_branch = ''No repository'', last_commit = None,
               last_commit_message = None\<rparr>
      | Some r \<Rightarrow>
         (case get_status_try r of
            Inr st \<Rightarrow> Inr st
          | Inl e \<Rightarrow>
              Inr \<lparr>is_clean = False, has_changes = False, ahead = 0, behind = 0,
                   current_branch = ''Error'', last_commit = None,
                   last_commit_message = Some (str_exn e)\<rparr>))"

definition not_available :: GitOperation where
  "not_available =
     \<lparr>success = False, message = ''Git repository not available'',
      details = Some ''Please initialize a Git repository first''\<rparr>"

text \<open>
  Each operation returns its result together with the log of the calls it made, in
  order: Python's mutation of the repository is the second component.
\<close>

definition add_and_commit :: "repo option \<Rightarrow> string \<Rightarrow> string \<Rightarrow> GitOperation \<times> git_call list" where
  "add_and_commit ro msg files_pattern =
     (case ro of
        None \<Rightarrow> (not_available, [])
      | Some r \<Rightarrow>
     (case git_add r of
        Some e \<Rightarrow>
          (\<lparr>success = False, message = ''Failed to commit changes'',
            details = Some (str_exn e)\<rparr>, [CallAdd files_pattern])
      | None \<Rightarrow>
     (case is_dirty r of
        Inl e \<Rightarrow>
          (\<lparr>success = False, message = ''Failed to commit changes'',
            details = Some (str_exn e)\<rparr>, [CallAdd files_pattern])
      | Inr False \<Rightarrow>
          (\<lparr>success = True, message = ''No changes to commit'',
            details = Some ''Working tree is clean''\<rparr>, [CallAdd files_pattern])
      | Inr True \<Rightarrow>
     (case index_commit r of
        Inl e \<Rightarrow>
          (\<lparr>success = False, message = ''Failed to commit changes'',
            details = Some (str_exn e)\<rparr>, [CallAdd files_pattern, CallCommit msg])
      | Inr hexsha \<Rightarrow>
          (\<lparr>success = True, message = ''Successfully committed changes'',
            details = Some (''Commit '' @ take 8 hexsha @ '': '' @ msg)\<rparr>,
           [CallAdd files_pattern, CallCommit msg])))))"

text \<open>The two \<^verbatim>\<open>except\<close> clauses of \<^verbatim>\<open>push\<close>.\<close>

definition push_failed :: "py_exception \<Rightarrow> GitOperation" where
  "push_failed e =
     (let error_msg = str_exn e in
      case e of
        GitCommandError m \<Rightarrow>
          (if py_in ''authentication failed'' (py_lower error_msg)
              \<or> py_in ''permission denied'' (py_lower error_msg)
           then \<lparr>success = False, message = ''Authentication failed'',
                 details = Some ''Please set up SSH keys or Personal Access Token. Check your Git credentials configuration.''\<rparr>
           else if py_in ''remote rejected'' (py_lower error_msg)
           then \<lparr>success = False, message = ''Push rejected by remote'',
                 details = Some ''The remote repository rejected the push. You may need to pull first or check branch permissions.''\<rparr>
           else \<lparr>success = False, message = ''Push failed'', details = Some error_msg\<rparr>)
      | _ \<Rightarrow>
          (if py_in ''authentication'' (py_lower error_msg)
              \<or> py_in ''credential'' (py_lower error_msg)
           then \<lparr>success = False, message = ''Authentication required'',
                 details = Some ''Please configure Git authentication (SSH keys or Personal Access Token)''\<rparr>
           else \<lparr>success = False, message = ''Failed to push changes'',
                 details = Some error_msg\<rparr>))"

definition push :: "repo option \<Rightarrow> string \<Rightarrow> string option \<Rightarrow> GitOperation \<times> git_call list" where
  "push ro remote branch0 =
     (case ro of
        None \<Rightarrow> (not_available, [])
      | Some r \<Rightarrow>
     (case (case branch0 of None \<Rightarrow> active_branch_name r | Some b \<Rightarrow> Inr b) of
        Inl e \<Rightarrow> (push_failed e, [])
      | Inr branch \<Rightarrow>
     (case remote_lookup r of
        Some e \<Rightarrow> (push_failed e, [])
      | None \<Rightarrow>
     (case origin_push r of
        Inl e \<Rightarrow> (push_failed e, [CallPush branch])
      | Inr infos \<Rightarrow>
         (if infos \<noteq> [] \<and> flags_error (hd infos)
          then
            (let error_details = summary (hd infos) in
             if py_in ''authentication'' (py_lower error_details)
                \<or> py_in ''permission denied'' (py_lower error_details)
             then (\<lparr>success = False, message = ''Authentication failed'',
                    details = Some ''Please set up SSH keys or Personal Access Token. See README for setup instructions.''\<rparr>,
                   [CallPush branch])
             else (\<lparr>success = False, message = ''Push failed'',
                    details = Some error_details\<rparr>, [CallPush branch]))
          else (\<lparr>success = True, message = ''Successfully pushed changes'',
                 details = Some (''Pushed to '' @ remote @ ''/'' @ branch)\<rparr>,
                [CallPush branch]))))))"

text \<open>The two \<^verbatim>\<open>except\<close> clauses of \<^verbatim>\<open>pull\<close>.\<close>

definition pull_failed :: "py_exception \<Rightarrow> GitOperation" where
  "pull_failed e =
     (let error_msg = str_exn e in
      case e of
        GitCommandError m \<Rightarrow>
          (if py_in ''conflict'' (py_lower error_msg)
           then \<lparr>success = False, message = ''Merge conflict detected'',
                 details = Some ''Please resolve conflicts manually and try again''\<rparr>
           else if py_in ''authentication failed'' (py_lower error_msg)
                   \<or> py_in ''permission denied'' (py_lower error_msg)
           then \<lparr>success = False, message = ''Authentication failed'',
                 details = Some ''Please set up SSH keys or Personal Access Token. Check your Git credentials configuration.''\<rparr>
           else \<lparr>success = False, message = ''Failed to pull changes'',
                 details = Some error_msg\<rparr>)
      | _ \<Rightarrow>
          (if py_in ''authentication'' (py_lower error_msg)
              \<or> py_in ''credential'' (py_lower error_msg)
           then \<lparr>success = False, message = ''Authentication required'',
                 details = Some ''Please configure Git authentication (SSH keys or Personal Access Token)''\<rparr>
           else \<lparr>success = False, message = ''Failed to pull changes'',
                 details = Some error_msg\<rparr>))"

text \<open>
  \<^verbatim>\<open>origin.pull\<close> answers a list of fetch results; the service reads the note of the
  first one.
\<close>

definition pull :: "repo option \<Rightarrow> string \<Rightarrow> string option \<Rightarrow> GitOperation \<times> git_call list" where
  "pull ro remote branch0 =
     (case ro of
        None \<Rightarrow> (not_available, [])
      | Some r \<Rightarrow>
     (case (case branch0 of None \<Rightarrow> active_branch_name r | Some b \<Rightarrow> Inr b) of
        Inl e \<Rightarrow> (pull_failed e, [])
      | Inr branch \<Rightarrow>
     (case remote_lookup r of
        Some e \<Rightarrow> (pull_failed e, [])
      | None \<Rightarrow>
     (case origin_pull r of
        Inl e \<Rightarrow> (pull_failed e, [CallPull branch])
      | Inr [] \<Rightarrow>
          (\<lparr>success = True, message = ''Already up to date'',
            details = Some ''No changes to pull''\<rparr>, [CallPull branch])
      | Inr (note # rest) \<Rightarrow>
          (\<lparr>success = True, message = ''Successfully pulled changes'',
            details = Some (''Pulled from '' @ remote @ ''/'' @ branch @ '': '' @ note)\<rparr>,
           [CallPull branch])))))"

definition commit_and_push :: "repo option \<Rightarrow> string \<Rightarrow> string \<Rightarrow> GitOperation \<times> git_call list" where
  "commit_and_push ro msg files_pattern =
     (case add_and_commit ro msg files_pattern of (commit_result, log1) \<Rightarrow>
        if \<not> success commit_result then (commit_result, log1)
        else if py_in ''No changes to commit'' (message commit_result)
        then (commit_result, log1)
        else
          (case push ro ''origin'' None of (push_result, log2) \<Rightarrow>
             if \<not> success push_result
             then (\<lparr>success = False, message = ''Commit successful but push failed'',
                    details = Some (''Commit: '' @ fmt_opt (details commit_result)
                                     @ ''. Push error: '' @ fmt_opt (details push_result))\<rparr>,
                   log1 @ log2)
             else (\<lparr>success = True, message = ''Successfully committed and pushed changes'',
                    details = Some (fmt_opt (details commit_result) @ ''. ''
                                     @ fmt_opt (details push_result))\<rparr>,
                   log1 @ log2)))"

definition is_push_call :: "git_call \<Rightarrow> bool" where
  "is_push_call c = (case c of CallPush b \<Rightarrow> True | _ \<Rightarrow> False)"

section \<open>models/config.py\<close>

record SyncConfig =
  auto_pull_interval :: int
  auto_pull_on_startup :: bool
  default_commit_message :: string
  files_directory :: string
  max_file_size :: nat

definition default_config :: SyncConfig where
  "default_config =
     \<lparr>auto_pull_interval = 600, auto_pull_on_startup = True,
      default_commit_message = ''Updated files via web UI'',
      files_directory = ''files'', max_file_size = 10 * 1024 * 1024\<rparr>"

section \<open>services/sync\_service.py\<close>

text \<open>
  The fields of \<^verbatim>\<open>SyncService\<close> that change. A time stamp (\<^verbatim>\<open>datetime.now()\<close>) is
  a natural number; \<open>sync_task\<close> is the handle of the task that runs the loop, an index
  into the table of tasks of the event loop.
\<close>

record SyncService =
  last_pull_time :: "nat option"
  sync_task :: "nat option"
  is_running :: bool

text \<open>
  \<^verbatim>\<open>perform_pull\<close>: the result, the service afterwards and the calls made on the
  backend. \<open>now\<close> is what the clock reads when the pull has returned. The service's
  \<^verbatim>\<open>pull\<close> turns every exception into a result, so the \<^verbatim>\<open>except\<close> clause of
  \<^verbatim>\<open>perform_pull\<close> has nothing to catch.
\<close>

definition perform_pull :: "repo option \<Rightarrow> nat \<Rightarrow> SyncService \<Rightarrow> bool \<times> SyncService \<times> git_call list" where
  "perform_pull ro now svc =
     (if \<not> is_repo_available ro then (False, svc, [])
      else
        (case pull ro ''origin'' None of (result, log) \<Rightarrow>
           (let svc' = svc\<lparr>last_pull_time := Some now\<rparr>
            in if success result then (True, svc', log) else (False, svc', log))))"

record sync_status =
  status_is_running :: bool
  status_last_pull_time :: "nat option"
  status_auto_pull_interval :: int
  status_auto_pull_on_startup :: bool

definition get_sync_status :: "SyncConfig \<Rightarrow> SyncService \<Rightarrow> sync_status" where
  "get_sync_status cfg svc =
     \<lparr>status_is_running = is_running svc,
      status_last_pull_time = last_pull_time svc,
      status_auto_pull_interval = auto_pull_interval cfg,
      status_auto_pull_on_startup = auto_pull_on_startup cfg\<rparr>"

subsection \<open>The event loop\<close>

text \<open>
  The coroutines run on one cooperative event loop: a coroutine runs without
  interruption from one \<^verbatim>\<open>await\<close> that suspends to the next. \<^verbatim>\<open>perform_pull\<close>
  awaits nothing, so it never suspends, and \<^verbatim>\<open>_sync_loop\<close> suspends only in
  \<^verbatim>\<open>asyncio.sleep\<close>. A task of the loop is therefore not yet started, suspended in
  the sleep, or finished. \<open>must_cancel\<close> records that \<^verbatim>\<open>cancel()\<close> was called on a task
  that is not finished: the next time the task runs, \<^verbatim>\<open>CancelledError\<close> is raised
  where it is suspended. \<open>pulls\<close> counts the calls of \<^verbatim>\<open>perform_pull\<close> that the task
  has made. How long a sleep lasts is left open: a sleeping task may run at any event.
\<close>

datatype coroutine_state = NotStarted | Sleeping | Finished

record task =
  state :: coroutine_state
  must_cancel :: bool
  pulls :: nat

text \<open>
  \<open>awaiting\<close> lists, for every call of \<^verbatim>\<open>stop_auto_sync\<close> that is suspended in
  \<^verbatim>\<open>await self._sync_task\<close>, the task it waits for.
\<close>

record system =
  config :: SyncConfig
  service :: SyncService
  tasks :: "task list"
  awaiting :: "nat list"

definition initial :: "SyncConfig \<Rightarrow> system" where
  "initial cfg =
     \<lparr>config = cfg,
      service = \<lparr>last_pull_time = None, sync_task = None, is_running = False\<rparr>,
      tasks = [], awaiting = []\<rparr>"

text \<open>\<^verbatim>\<open>start_auto_sync\<close> runs to its end without suspending.\<close>

definition start_auto_sync :: "repo option \<Rightarrow> nat \<Rightarrow> system \<Rightarrow> system" where
  "start_auto_sync ro now s =
     (if is_running (service s) then s
      else
        (let svc1 = (service s)\<lparr>is_running := True\<rparr>;
             svc2 = (if auto_pull_on_startup (config s)
                     then fst (snd (perform_pull ro now svc1)) else svc1)
         in s\<lparr>service := svc2\<lparr>sync_task := Some (length (tasks s))\<rparr>,
               tasks := tasks s @ [\<lparr>state = NotStarted, must_cancel = False, pulls = 0\<rparr>]\<rparr>))"

text \<open>
  \<^verbatim>\<open>stop_auto_sync\<close> up to its \<^verbatim>\<open>await\<close>. \<^verbatim>\<open>cancel()\<close> on a finished task does
  nothing, and awaiting a finished task does not suspend: the call returns at once.
\<close>

definition stop_auto_sync_call :: "system \<Rightarrow> system" where
  "stop_auto_sync_call s =
     (if \<not> is_running (service s) then s
      else
        (let s1 = s\<lparr>service := (service s)\<lparr>is_running := False\<rparr>\<rparr>
         in case sync_task (service s) of
              None \<Rightarrow> s1
            | Some t \<Rightarrow>
                if t < length (tasks s) \<and> state (tasks s ! t) \<noteq> Finished
                then s1\<lparr>tasks := (tasks s)[t := (tasks s ! t)\<lparr>must_cancel := True\<rparr>],
                        awaiting := awaiting s @ [t]\<rparr>
                else s1))"

text \<open>
  The rest of \<^verbatim>\<open>stop_auto_sync\<close>: the \<^verbatim>\<open>await\<close> on task \<open>t\<close> completes, which it
  does only once the task has finished, and the call returns.
\<close>

definition stop_auto_sync_return :: "nat \<Rightarrow> system \<Rightarrow> system option" where
  "stop_auto_sync_return t s =
     (if t \<in> set (awaiting s) \<and> t < length (tasks s) \<and> state (tasks s ! t) = Finished
      then Some (s\<lparr>awaiting := remove1 t (awaiting s)\<rparr>)
      else None)"

text \<open>
  One run of the task \<open>t\<close> that executes \<^verbatim>\<open>_sync_loop\<close>, up to its next suspension or
  its end. A pending cancellation raises \<^verbatim>\<open>CancelledError\<close>: in a task that has not
  started the body never runs, in a sleeping task the handler of the loop logs it and
  the coroutine returns. Otherwise a task that starts tests the loop condition, and a
  task whose sleep is over tests \<^verbatim>\<open>is_running\<close> again, pulls, and tests the loop
  condition.
\<close>

definition sync_loop_run :: "nat \<Rightarrow> repo option \<Rightarrow> nat \<Rightarrow> system \<Rightarrow> system option" where
  "sync_loop_run t ro now s =
     (if \<not> t < length (tasks s) then None
      else
        (let tk = tasks s ! t in
         if state tk = Finished then None
         else if must_cancel tk
         then Some (s\<lparr>tasks := (tasks s)[t := tk\<lparr>state := Finished, must_cancel := False\<rparr>]\<rparr>)
         else
           (case state tk of
              NotStarted \<Rightarrow>
                Some (s\<lparr>tasks := (tasks s)[t := tk\<lparr>state :=
                          (if is_running (service s) then Sleeping else Finished)\<rparr>]\<rparr>)
            | Sleeping \<Rightarrow>
                if is_running (service s)
                then
                  (let svc' = fst (snd (perform_pull ro now (service s)))
                   in Some (s\<lparr>service := svc',
                             tasks := (tasks s)[t := tk\<lparr>pulls := pulls tk + 1, state :=
                               (if is_running svc' then Sleeping else Finished)\<rparr>]\<rparr>))
                else Some (s\<lparr>tasks := (tasks s)[t := tk\<lparr>state := Finished\<rparr>]\<rparr>)
            | Finished \<Rightarrow> None)))"

section \<open>main.py: the endpoints of the scheduler\<close>

definition manual_sync_pull :: "repo option \<Rightarrow> nat \<Rightarrow> SyncService \<Rightarrow> GitOperation \<times> SyncService" where
  "manual_sync_pull ro now svc =
     (case perform_pull ro now svc of (ok, svc', log) \<Rightarrow>
        if ok
        then (\<lparr>success = True, message = ''Manual sync pull completed successfully'',
               details = Some ''Files have been synchronized''\<rparr>, svc')
        else (\<lparr>success = False, message = ''Manual sync pull failed'',
               details = Some ''Check logs for more information''\<rparr>, svc'))"

text \<open>
  What can happen to the scheduler: a call of \<^verbatim>\<open>start_auto_sync\<close>, the two halves of
  a call of \<^verbatim>\<open>stop_auto_sync\<close>, a run of a loop task, a request to the manual-pull
  endpoint and a request to the status endpoint. The events that may pull carry the
  state of the repository and the reading of the clock at that moment.
\<close>

datatype event =
    StartAutoSync "repo option" nat
  | StopAutoSyncCall
  | StopAutoSyncReturn nat
  | SyncLoopRun nat "repo option" nat
  | ManualSyncPull "repo option" nat
  | GetSyncStatus

fun step :: "system \<Rightarrow> event \<Rightarrow> system option" where
  "step s (StartAutoSync ro now) = Some (start_auto_sync ro now s)"
| "step s StopAutoSyncCall = Some (stop_auto_sync_call s)"
| "step s (StopAutoSyncReturn t) = stop_auto_sync_return t s"
| "step s (SyncLoopRun t ro now) = sync_loop_run t ro now s"
| "step s (ManualSyncPull ro now) =
     Some (s\<lparr>service := snd (manual_sync_pull ro now (service s))\<rparr>)"
| "step s GetSyncStatus = Some s"

fun run :: "system \<Rightarrow> event list \<Rightarrow> system option" where
  "run s [] = Some s"
| "run s (e # es) = (case step s e of None \<Rightarrow> None | Some s' \<Rightarrow> run s' es)"

definition is_start :: "event \<Rightarrow> bool" where
  "is_start e = (case e of StartAutoSync ro now \<Rightarrow> True | _ \<Rightarrow> False)"

definition calls_perform_pull :: "event \<Rightarrow> bool" where
  "calls_perform_pull e =
     (case e of StartAutoSync ro now \<Rightarrow> True | SyncLoopRun t ro now \<Rightarrow> True
      | ManualSyncPull ro now \<Rightarrow> True | _ \<Rightarrow> False)"

text \<open>The pulls made by all loop tasks so far.\<close>

definition loop_pulls :: "system \<Rightarrow> nat" where
  "loop_pulls s = sum_list (map pulls (tasks s))"

text \<open>
  A task counts as cancelled once it has finished or \<^verbatim>\<open>cancel()\<close> is pending on it.
\<close>

definition cancelled :: "nat \<Rightarrow> system \<Rightarrow> bool" where
  "cancelled t s =
     (t < length (tasks s) \<and> (state (tasks s ! t) = Finished \<or> must_cancel (tasks s ! t)))"

definition task_pulls :: "nat \<Rightarrow> system \<Rightarrow> nat" where
  "task_pulls t s = pulls (tasks s ! t)"

section \<open>Example values\<close>

text \<open>A repository on branch main with a clean working tree and nothing to fetch.\<close>

definition clean_repo :: repo where
  "clean_repo =
     \<lparr>is_dirty = Inr False, active_branch_name = Inr ''main'',
      tracking_branch = Inr (Some ''origin/main''),
      iter_commits_ahead = Inr [], iter_commits_behind = Inr [],
      head_is_valid = Inr True, head_commit_hexsha = Inr ''0123456789abcdef'',
      head_commit_message = Inr ''init'', git_add = None,
      index_commit = Inr ''fedcba9876543210'', remote_lookup = None,
      origin_push = Inr [], origin_pull = Inr []\<rparr>"

text \<open>The same repository with a modified file, and with a remote that rejects the push.\<close>

definition dirty_repo :: repo where
  "dirty_repo = clean_repo\<lparr>is_dirty := Inr True\<rparr>"

definition rejecting_repo :: repo where
  "rejecting_repo =
     dirty_repo\<lparr>origin_push := Inl (GitCommandError ''! [remote rejected] main'')\<rparr>"

definition broken_repo :: repo where
  "broken_repo = clean_repo\<lparr>is_dirty := Inl (GitCommandError ''fatal: bad object'')\<rparr>"

text \<open>
  The scheduler after \<^verbatim>\<open>start_auto_sync\<close> at time 1, a first run of the loop task and
  one periodic pull at time 3: the task sleeps again.
\<close>

definition sleeping_system :: system where
  "sleeping_system =
     \<lparr>config = default_config,
      service = \<lparr>last_pull_time = Some 3, sync_task = Some 0, is_running = True\<rparr>,
      tasks = [\<lparr>state = Sleeping, must_cancel = False, pulls = 1\<rparr>],
      awaiting = []\<rparr>"







section \<open>Properties of the repository backend\<close>


text \<open>
  Claim C8. \<^verbatim>\<open>get_status\<close> always returns a status and never an exception: whatever
  the repository handle is, the result is a status value; and when a library call inside
  the \<^verbatim>\<open>try\<close> block raises \<open>e\<close>, the status has branch \<^verbatim>\<open>Error\<close> and the text of
  \<open>e\<close> in its message field.
\<close>

theorem get_status_never_raises:
  "(\<exists>st. get_status ro = Inr st) \<and>
   (get_status_try r = Inl e \<longrightarrow>
      get_status (Some r) =
        Inr \<lparr>is_clean = False, has_changes = False, ahead = 0, behind = 0,
             current_branch = ''Error'', last_commit = None,
             last_commit_message = Some (str_exn e)\<rparr>)"
  by (auto simp: get_status_def split: option.splits sum.splits)

theorem get_status_never_raises_witness:
  "get_status_try broken_repo = Inl (GitCommandError ''fatal: bad object'') \<and>
   get_status (Some broken_repo) =
     Inr \<lparr>is_clean = False, has_changes = False, ahead = 0, behind = 0,
          current_branch = ''Error'', last_commit = None,
          last_commit_message = Some ''fatal: bad object''\<rparr>"
  using get_status_never_raises
    [of None broken_repo "GitCommandError ''fatal: bad object''"]
  by (simp add: get_status_try_def broken_repo_def clean_repo_def)



lemma add_and_commit_log:
  "add_and_commit ro msg pat = (cr, log1) \<Longrightarrow> \<forall>c \<in> set log1. \<not> is_push_call c"
  by (auto simp: add_and_commit_def is_push_call_def split: option.splits sum.splits bool.splits)

lemma add_and_commit_success:
  "add_and_commit ro msg pat = (cr, log1) \<Longrightarrow> success cr \<Longrightarrow>
     message cr = ''No changes to commit'' \<or> message cr = ''Successfully committed changes''"
  by (auto simp: add_and_commit_def not_available_def split: option.splits sum.splits bool.splits)

text \<open>
  Claim C7. \<^verbatim>\<open>commit_and_push\<close> first stages and commits: the calls of
  \<^verbatim>\<open>add_and_commit\<close> open its log. When that step succeeds with the message that there
  are no changes, the result is that very result and the log holds no push. When that
  step succeeds with another message (a commit was made) and the push that follows
  fails, the result is one failure whose message says that the commit succeeded and the
  push failed and whose details hold the details of the commit and of the push error.
\<close>

theorem commit_and_push_composition:
  "add_and_commit ro msg pat = (cr, log1) \<longrightarrow>
     prefix log1 (snd (commit_and_push ro msg pat)) \<and>
     (success cr \<and> message cr = ''No changes to commit'' \<longrightarrow>
        commit_and_push ro msg pat = (cr, log1) \<and> (\<forall>c \<in> set log1. \<not> is_push_call c)) \<and>
     (success cr \<and> message cr \<noteq> ''No changes to commit'' \<and>
      push ro ''origin'' None = (pr, log2) \<and> \<not> success pr \<longrightarrow>
        commit_and_push ro msg pat =
          (\<lparr>success = False, message = ''Commit successful but push failed'',
            details = Some (''Commit: '' @ fmt_opt (details cr) @ ''. Push error: ''
                             @ fmt_opt (details pr))\<rparr>, log1 @ log2))"
proof (intro impI conjI)
  assume ac: "add_and_commit ro msg pat = (cr, log1)"
  then show "prefix log1 (snd (commit_and_push ro msg pat))"
    by (simp add: commit_and_push_def split: prod.splits)
  show "commit_and_push ro msg pat = (cr, log1)"
    if "success cr \<and> message cr = ''No changes to commit''"
    using ac that by (simp add: commit_and_push_def)
  show "\<forall>c \<in> set log1. \<not> is_push_call c"
    using add_and_commit_log [OF ac] .
  show "commit_and_push ro msg pat =
          (\<lparr>success = False, message = ''Commit successful but push failed'',
            details = Some (''Commit: '' @ fmt_opt (details cr) @ ''. Push error: ''
                             @ fmt_opt (details pr))\<rparr>, log1 @ log2)"
    if h: "success cr \<and> message cr \<noteq> ''No changes to commit'' \<and>
           push ro ''origin'' None = (pr, log2) \<and> \<not> success pr"
  proof -
    have "message cr = ''Successfully committed changes''"
      using add_and_commit_success [OF ac] h by blast
    then have "\<not> py_in ''No changes to commit'' (message cr)"
      by simp
    then show ?thesis
      using ac h by (simp add: commit_and_push_def)
  qed
qed

theorem commit_and_push_composition_witness:
  "commit_and_push (Some clean_repo) ''sync'' ''files/'' =
     (\<lparr>success = True, message = ''No changes to commit'',
       details = Some ''Working tree is clean''\<rparr>, [CallAdd ''files/'']) \<and>
   commit_and_push (Some rejecting_repo) ''sync'' ''files/'' =
     (\<lparr>success = False, message = ''Commit successful but push failed'',
       details = Some ''Commit: Commit fedcba98: sync. Push error: The remote repository rejected the push. You may need to pull first or check branch permissions.''\<rparr>,
      [CallAdd ''files/'', CallCommit ''sync'', CallPush ''main''])"
proof -
  have a: "add_and_commit (Some clean_repo) ''sync'' ''files/'' =
     (\<lparr>success = True, message = ''No changes to commit'',
       details = Some ''Working tree is clean''\<rparr>, [CallAdd ''files/''])"
    by (simp add: add_and_commit_def clean_repo_def)
  have b: "add_and_commit (Some rejecting_repo) ''sync'' ''files/'' =
     (\<lparr>success = True, message = ''Successfully committed changes'',
       details = Some ''Commit fedcba98: sync''\<rparr>, [CallAdd ''files/'', CallCommit ''sync''])"
    by (simp add: add_and_commit_def rejecting_repo_def dirty_repo_def clean_repo_def)
  have c: "push (Some rejecting_repo) ''origin'' None =
     (\<lparr>success = False, message = ''Push rejected by remote'',
       details = Some ''The remote repository rejected the push. You may need to pull first or check branch permissions.''\<rparr>,
      [CallPush ''main''])"
    by (simp add: push_def push_failed_def rejecting_repo_def dirty_repo_def clean_repo_def
          py_lower_def lower_char_def)
  show ?thesis
    using commit_and_push_composition [THEN mp, OF a]
      commit_and_push_composition
        [where pr = "\<lparr>success = False, message = ''Push rejected by remote'',
           details = Some ''The remote repository rejected the push. You may need to pull first or check branch permissions.''\<rparr>"
         and ?log2.0 = "[CallPush ''main'']", THEN mp, OF b] c
    by simp
qed

section \<open>Properties of the scheduler\<close>

lemma pull_clean_repo:
  "pull (Some clean_repo) ''origin'' None =
     (\<lparr>success = True, message = ''Already up to date'',
       details = Some ''No changes to pull''\<rparr>, [CallPull ''main''])"
  by (simp add: pull_def clean_repo_def)

lemma perform_pull_clean_repo:
  "perform_pull (Some clean_repo) now svc =
     (True, svc\<lparr>last_pull_time := Some now\<rparr>, [CallPull ''main''])"
  by (simp add: perform_pull_def is_repo_available_def pull_clean_repo)

lemma perform_pull_is_running [simp]:
  "is_running (fst (snd (perform_pull ro now svc))) = is_running svc"
  by (simp add: perform_pull_def Let_def split: prod.splits)

lemma perform_pull_sync_task [simp]:
  "sync_task (fst (snd (perform_pull ro now svc))) = sync_task svc"
  by (simp add: perform_pull_def Let_def split: prod.splits)

lemma manual_sync_pull_is_running [simp]:
  "is_running (snd (manual_sync_pull ro now svc)) = is_running svc"
  using perform_pull_is_running [of ro now svc]
  by (cases "perform_pull ro now svc") (simp add: manual_sync_pull_def)

text \<open>
  Claim C2, as the code has it. On an unavailable repository \<^verbatim>\<open>perform_pull\<close> returns
  false, makes no call on the backend and leaves the service, with its last pull time,
  as it was. On an available repository it calls the backend's pull once, returns
  whether that succeeded, and sets the last pull time to the reading of the clock,
  whether the pull succeeded or failed.
\<close>

theorem perform_pull_timestamp:
  "(\<not> is_repo_available ro \<longrightarrow> perform_pull ro now svc = (False, svc, [])) \<and>
   (is_repo_available ro \<longrightarrow>
      perform_pull ro now svc =
        (success (fst (pull ro ''origin'' None)), svc\<lparr>last_pull_time := Some now\<rparr>,
         snd (pull ro ''origin'' None)))"
  by (simp add: perform_pull_def Let_def split: prod.splits)

theorem perform_pull_timestamp_witness:
  "\<not> is_repo_available None \<and>
   perform_pull None 5 \<lparr>last_pull_time = Some 3, sync_task = None, is_running = False\<rparr> =
     (False, \<lparr>last_pull_time = Some 3, sync_task = None, is_running = False\<rparr>, []) \<and>
   is_repo_available (Some clean_repo) \<and>
   perform_pull (Some clean_repo) 5
       \<lparr>last_pull_time = Some 3, sync_task = None, is_running = False\<rparr> =
     (True, \<lparr>last_pull_time = Some 5, sync_task = None, is_running = False\<rparr>,
      [CallPull ''main''])"
  using perform_pull_timestamp
      [of None 5 "\<lparr>last_pull_time = Some 3, sync_task = None, is_running = False\<rparr>"]
    perform_pull_timestamp
      [of "Some clean_repo" 5 "\<lparr>last_pull_time = Some 3, sync_task = None, is_running = False\<rparr>"]
  by (simp add: is_repo_available_def pull_clean_repo)

text \<open>
  The claim as the specification words it fails: on an unavailable repository the
  attempt is not recorded.
\<close>

theorem perform_pull_unavailable_counterexample:
  "last_pull_time (fst (snd (perform_pull None 5
      \<lparr>last_pull_time = None, sync_task = None, is_running = False\<rparr>))) \<noteq> Some 5"
  by (simp add: perform_pull_def is_repo_available_def)

lemma sum_list_update_same:
  "i < length xs \<Longrightarrow> f y = f (xs ! i) \<Longrightarrow>
     sum_list (map f (xs[i := y])) = sum_list (map (f::'a \<Rightarrow> nat) xs)"
  by (induction xs arbitrary: i) (auto split: nat.splits)

lemma stop_call_loop_pulls: "loop_pulls (stop_auto_sync_call s) = loop_pulls s"
  by (simp add: stop_auto_sync_call_def loop_pulls_def Let_def sum_list_update_same
       split: option.splits)

lemma stop_call_not_running: "\<not> is_running (service (stop_auto_sync_call s))"
  by (simp add: stop_auto_sync_call_def Let_def split: option.splits)

lemma stop_return_service:
  "stop_auto_sync_return t s = Some s' \<Longrightarrow> service s' = service s \<and> tasks s' = tasks s"
  by (auto simp: stop_auto_sync_return_def split: if_splits)

text \<open>
  The test of \<^verbatim>\<open>is_running\<close> after the sleep: a run of a loop task while the
  scheduler is stopped pulls nothing.
\<close>

lemma loop_run_stopped:
  assumes "sync_loop_run t ro now s = Some s'" and "\<not> is_running (service s)"
  shows "service s' = service s \<and> loop_pulls s' = loop_pulls s"
proof -
  from assms(1) have t: "t < length (tasks s)"
    by (auto simp: sync_loop_run_def split: if_splits)
  from assms t show ?thesis
    by (cases "state (tasks s ! t)"; cases "must_cancel (tasks s ! t)")
       (auto simp: sync_loop_run_def Let_def loop_pulls_def sum_list_update_same)
qed

lemma step_stopped:
  assumes "step s e = Some s'" and "\<not> is_start e" and "\<not> is_running (service s)"
  shows "loop_pulls s' = loop_pulls s \<and> \<not> is_running (service s')"
proof (cases e)
  case (StartAutoSync ro now)
  with assms(2) show ?thesis by (simp add: is_start_def)
next
  case StopAutoSyncCall
  with assms(1) show ?thesis
    using stop_call_loop_pulls [of s] stop_call_not_running [of s] by auto
next
  case (StopAutoSyncReturn t)
  with assms(1,3) show ?thesis
    using stop_return_service [of t s s'] by (simp add: loop_pulls_def)
next
  case (SyncLoopRun t ro now)
  with assms(1,3) show ?thesis
    using loop_run_stopped [of t ro now s s'] by simp
next
  case (ManualSyncPull ro now)
  with assms(1,3) show ?thesis
    by (auto simp: loop_pulls_def)
next
  case GetSyncStatus
  with assms(1,3) show ?thesis by auto
qed

lemma run_stopped:
  "run s es = Some s' \<Longrightarrow> \<forall>e \<in> set es. \<not> is_start e \<Longrightarrow> \<not> is_running (service s) \<Longrightarrow>
     loop_pulls s' = loop_pulls s \<and> \<not> is_running (service s')"
proof (induction es arbitrary: s)
  case Nil
  then show ?case by simp
next
  case (Cons e es)
  from Cons.prems(1) obtain s1 where s1: "step s e = Some s1" and r: "run s1 es = Some s'"
    by (auto split: option.splits)
  from Cons.prems(2) have ne: "\<not> is_start e" and nes: "\<forall>e \<in> set es. \<not> is_start e"
    by simp_all
  have "loop_pulls s1 = loop_pulls s \<and> \<not> is_running (service s1)"
    using step_stopped [OF s1 ne Cons.prems(3)] .
  then show ?case
    using Cons.IH [OF r nes] by simp
qed

lemma start_cancelled:
  "cancelled t s \<Longrightarrow> cancelled t (start_auto_sync ro now s)
     \<and> task_pulls t (start_auto_sync ro now s) = task_pulls t s"
  by (simp add: cancelled_def task_pulls_def start_auto_sync_def Let_def nth_append)

lemma stop_call_cancelled:
  "cancelled t s \<Longrightarrow> cancelled t (stop_auto_sync_call s)
     \<and> task_pulls t (stop_auto_sync_call s) = task_pulls t s"
  by (simp add: cancelled_def task_pulls_def stop_auto_sync_call_def Let_def nth_list_update
        split: option.splits)

text \<open>
  The cancellation: a task that is cancelled stays so and never pulls again, whichever
  task runs.
\<close>

lemma loop_run_cancelled:
  assumes "sync_loop_run u ro now s = Some s'" and "cancelled t s"
  shows "cancelled t s' \<and> task_pulls t s' = task_pulls t s"
proof -
  from assms(1) have u: "u < length (tasks s)"
    by (auto simp: sync_loop_run_def split: if_splits)
  from assms u show ?thesis
    by (cases "state (tasks s ! u)"; cases "must_cancel (tasks s ! u)"; cases "u = t";
        cases "is_running (service s)")
       (simp_all add: sync_loop_run_def Let_def cancelled_def task_pulls_def, auto)
qed

lemma step_cancelled:
  assumes "step s e = Some s'" and "cancelled t s"
  shows "cancelled t s' \<and> task_pulls t s' = task_pulls t s"
proof (cases e)
  case (StartAutoSync ro now)
  with assms show ?thesis using start_cancelled [of t s ro now] by auto
next
  case StopAutoSyncCall
  with assms show ?thesis using stop_call_cancelled [of t s] by auto
next
  case (StopAutoSyncReturn u)
  with assms show ?thesis
    using stop_return_service [of u s s'] by (simp add: cancelled_def task_pulls_def)
next
  case (SyncLoopRun u ro now)
  with assms show ?thesis using loop_run_cancelled [of u ro now s s' t] by simp
next
  case (ManualSyncPull ro now)
  with assms show ?thesis by (auto simp: cancelled_def task_pulls_def)
next
  case GetSyncStatus
  with assms show ?thesis by auto
qed

lemma run_cancelled:
  "run s es = Some s' \<Longrightarrow> cancelled t s \<Longrightarrow>
     cancelled t s' \<and> task_pulls t s' = task_pulls t s"
proof (induction es arbitrary: s)
  case Nil
  then show ?case by simp
next
  case (Cons e es)
  from Cons.prems(1) obtain s1 where s1: "step s e = Some s1" and r: "run s1 es = Some s'"
    by (auto split: option.splits)
  show ?case
    using step_cancelled [OF s1 Cons.prems(2)] Cons.IH [OF r] by simp
qed

lemma stop_call_cancels:
  "is_running (service s) \<Longrightarrow> sync_task (service s) = Some t \<Longrightarrow> t < length (tasks s) \<Longrightarrow>
   cancelled t (stop_auto_sync_call s) \<and> task_pulls t (stop_auto_sync_call s) = task_pulls t s"
  by (simp add: cancelled_def task_pulls_def stop_auto_sync_call_def Let_def)

text \<open>
  A call of \<^verbatim>\<open>stop_auto_sync\<close> on a running scheduler does return: one run of the
  cancelled task finishes it, after which the \<^verbatim>\<open>await\<close> completes.
\<close>

lemma stop_auto_sync_returns:
  assumes "is_running (service s)" and "sync_task (service s) = Some t"
    and "t < length (tasks s)" and "state (tasks s ! t) \<noteq> Finished"
  shows "\<exists>s'. run (stop_auto_sync_call s) [SyncLoopRun t ro now, StopAutoSyncReturn t] = Some s'
           \<and> state (tasks s' ! t) = Finished \<and> \<not> is_running (service s')"
  using assms
  by (simp add: stop_auto_sync_call_def sync_loop_run_def stop_auto_sync_return_def Let_def)

lemma sleeping_system_reachable:
  "run (initial default_config)
     [StartAutoSync (Some clean_repo) 1, SyncLoopRun 0 (Some clean_repo) 2,
      SyncLoopRun 0 (Some clean_repo) 3] = Some sleeping_system"
  by (simp add: initial_def default_config_def start_auto_sync_def sync_loop_run_def
        perform_pull_clean_repo sleeping_system_def)

text \<open>
  Claim C1. Let \<^verbatim>\<open>stop_auto_sync\<close> be called on a running scheduler whose loop task is
  \<open>t\<close>, and let any events follow, among them the return of that call. Then the
  scheduler is stopped by the call; the task \<open>t\<close> makes no pull from the call on,
  whatever follows; and as long as \<^verbatim>\<open>start_auto_sync\<close> is not called again, no loop
  task makes a pull and the scheduler stays stopped. The last conjunct is the test after
  the wait: a run of a loop task in a stopped scheduler, such as the run that ends a
  sleep during which the stop was requested, pulls nothing.
\<close>

theorem stop_suppresses_periodic_pull:
  assumes "is_running (service s)" and "sync_task (service s) = Some t"
    and "t < length (tasks s)" and "run (stop_auto_sync_call s) post = Some s'"
  shows "\<not> is_running (service (stop_auto_sync_call s)) \<and>
         task_pulls t s' = task_pulls t s \<and>
         ((\<forall>e \<in> set post. \<not> is_start e) \<longrightarrow>
            loop_pulls s' = loop_pulls s \<and> \<not> is_running (service s')) \<and>
         (\<not> is_running (service x) \<and> sync_loop_run u ro now x = Some x' \<longrightarrow>
            loop_pulls x' = loop_pulls x)"
proof (intro conjI impI)
  show nr: "\<not> is_running (service (stop_auto_sync_call s))"
    by (rule stop_call_not_running)
  show "task_pulls t s' = task_pulls t s"
    using run_cancelled [OF assms(4), of t] stop_call_cancels [OF assms(1-3)] by simp
  show "loop_pulls s' = loop_pulls s" if "\<forall>e \<in> set post. \<not> is_start e"
    using run_stopped [OF assms(4) that nr] stop_call_loop_pulls [of s] by simp
  show "\<not> is_running (service s')" if "\<forall>e \<in> set post. \<not> is_start e"
    using run_stopped [OF assms(4) that nr] by simp
  show "loop_pulls x' = loop_pulls x"
    if "\<not> is_running (service x) \<and> sync_loop_run u ro now x = Some x'"
    using loop_run_stopped [of u ro now x x'] that by simp
qed

theorem stop_suppresses_periodic_pull_witness:
  "is_running (service sleeping_system) \<and> sync_task (service sleeping_system) = Some 0 \<and>
   run (stop_auto_sync_call sleeping_system)
     [SyncLoopRun 0 (Some clean_repo) 4, StopAutoSyncReturn 0,
      ManualSyncPull (Some clean_repo) 5, GetSyncStatus] =
     Some \<lparr>config = default_config,
           service = \<lparr>last_pull_time = Some 5, sync_task = Some 0, is_running = False\<rparr>,
           tasks = [\<lparr>state = Finished, must_cancel = False, pulls = 1\<rparr>],
           awaiting = []\<rparr> \<and>
   task_pulls 0 sleeping_system = 1 \<and> loop_pulls sleeping_system = 1 \<and>
   loop_pulls \<lparr>config = default_config,
           service = \<lparr>last_pull_time = Some 5, sync_task = Some 0, is_running = False\<rparr>,
           tasks = [\<lparr>state = Finished, must_cancel = False, pulls = 1\<rparr>],
           awaiting = []\<rparr> = 1"
proof -
  have a: "is_running (service sleeping_system)"
    and b: "sync_task (service sleeping_system) = Some 0"
    and c: "0 < length (tasks sleeping_system)"
    by (simp_all add: sleeping_system_def)
  have d: "run (stop_auto_sync_call sleeping_system)
     [SyncLoopRun 0 (Some clean_repo) 4, StopAutoSyncReturn 0,
      ManualSyncPull (Some clean_repo) 5, GetSyncStatus] =
     Some \<lparr>config = default_config,
           service = \<lparr>last_pull_time = Some 5, sync_task = Some 0, is_running = False\<rparr>,
           tasks = [\<lparr>state = Finished, must_cancel = False, pulls = 1\<rparr>],
           awaiting = []\<rparr>"
    by (simp add: sleeping_system_def stop_auto_sync_call_def sync_loop_run_def
        stop_auto_sync_return_def manual_sync_pull_def perform_pull_clean_repo)
  have e: "task_pulls 0 sleeping_system = 1" "loop_pulls sleeping_system = 1"
    by (simp_all add: sleeping_system_def task_pulls_def loop_pulls_def)
  show ?thesis
    using stop_suppresses_periodic_pull [OF a b c d] a b d e
    by (simp add: is_start_def)
qed

lemma step_last_pull_time:
  assumes "step s e = Some s'" and "\<not> calls_perform_pull e"
  shows "last_pull_time (service s') = last_pull_time (service s)"
proof (cases e)
  case StopAutoSyncCall
  with assms show ?thesis
    by (auto simp: stop_auto_sync_call_def Let_def split: option.splits)
next
  case (StopAutoSyncReturn u)
  with assms show ?thesis using stop_return_service [of u s s'] by simp
qed (use assms in \<open>simp_all add: calls_perform_pull_def\<close>)

text \<open>
  Claim C3, as the code has it. The last pull time is written by \<^verbatim>\<open>perform_pull\<close>
  only, and \<^verbatim>\<open>perform_pull\<close> is called by the loop task, by the pull on startup in
  \<^verbatim>\<open>start_auto_sync\<close> and by the manual-pull endpoint. Every other event, the two
  halves of \<^verbatim>\<open>stop_auto_sync\<close> and the status endpoint, leaves the field as it was,
  and the status endpoint reports the field as it is.
\<close>

theorem last_pull_time_writers:
  "(step s e = Some s' \<and> e \<in> {StopAutoSyncCall, StopAutoSyncReturn t, GetSyncStatus}
      \<longrightarrow> last_pull_time (service s') = last_pull_time (service s)) \<and>
   status_last_pull_time (get_sync_status (config s) (service s)) = last_pull_time (service s)"
proof -
  have "\<not> calls_perform_pull e"
    if "e \<in> {StopAutoSyncCall, StopAutoSyncReturn t, GetSyncStatus}"
    using that by (auto simp: calls_perform_pull_def)
  then show ?thesis
    using step_last_pull_time [of s e s'] by (auto simp: get_sync_status_def)
qed

theorem last_pull_time_writers_witness:
  "step sleeping_system StopAutoSyncCall = Some (stop_auto_sync_call sleeping_system) \<and>
   last_pull_time (service (stop_auto_sync_call sleeping_system)) = Some 3 \<and>
   last_pull_time (service sleeping_system) = Some 3"
  using last_pull_time_writers
    [of sleeping_system StopAutoSyncCall "stop_auto_sync_call sleeping_system" 0]
  by (simp add: sleeping_system_def)

text \<open>
  The claim as the specification words it fails: a request to the manual-pull endpoint,
  made while no loop task exists, writes the last pull time.
\<close>

theorem manual_pull_writes_counterexample:
  "tasks (initial default_config) = [] \<and>
   last_pull_time (service (initial default_config)) = None \<and>
   step (initial default_config) (ManualSyncPull (Some clean_repo) 7) =
     Some ((initial default_config)
       \<lparr>service := \<lparr>last_pull_time = Some 7, sync_task = None, is_running = False\<rparr>\<rparr>)"
  by (simp add: initial_def manual_sync_pull_def perform_pull_clean_repo)

section \<open>Properties of the path sandbox\<close>





section \<open>Properties of the file store\<close>












lemma get_file_content_value_error:
  "get_file_content fs base rel = Inl e \<Longrightarrow> \<exists>m. e = ValueError m"
  by (auto simp: get_file_content_def split: sum.splits)






















end
